theory Spec2Isabelle
  imports Main
begin

section \<open>Exceptions\<close>

text \<open>
  Members of \<open>ApiErrorCode\<close> (module \<open>app.services.api.errors\<close>) that the request
  authentication pipeline and the user validators raise. Two errors carry the same code
  exactly when they name the same member.
\<close>

datatype ApiErrorCode =
    AUTH_REQUIRED
  | AUTH_INVALID_TOKEN
  | AUTH_EXPIRED_TOKEN
  | AUTH_INSUFFICIENT_PERMISSIONS
  | AUTH_INVALID_CREDENTIALS
  | USER_DEACTIVATED

text \<open>
  \<open>ApiErrorException(api_code, message, data)\<close>; \<open>data\<close> is a dictionary or absent.
\<close>

record ApiError =
  api_code :: ApiErrorCode
  message :: string
  data :: "(string \<times> string) list option"

text \<open>
  Everything a call can raise. The four token errors are the classes of
  \<open>app.tokens.exceptions\<close>, which \<open>routers/email.py\<close> catches one by one and for which
  \<open>exception_handlers/_handlers.py\<close> has handlers of their own beside the handler of
  \<open>ApiErrorException\<close>: classes apart from \<open>ApiErrorException\<close>.
  \<open>OtherException\<close> stands for an exception of a collaborator.
\<close>

datatype exn =
    ApiErrorException ApiError
  | TokenInvalidError
  | TokenExpiredError
  | TokenWrongTypeError
  | TokenInvalidSignatureError
  | KeyError string
  | AttributeError string
  | ValueError string
  | OtherException string

text \<open>What the clause \<open>except ApiErrorException\<close> catches.\<close>

fun is_ApiErrorException :: "exn \<Rightarrow> bool" where
  "is_ApiErrorException (ApiErrorException _) = True"
| "is_ApiErrorException _ = False"

definition api_error :: "ApiErrorCode \<Rightarrow> string \<Rightarrow> (string \<times> string) list option \<Rightarrow> exn" where
  "api_error c m d = ApiErrorException \<lparr>api_code = c, message = m, data = d\<rparr>"

section \<open>Strings\<close>

text \<open>\<open>s.split(sep)\<close> for a separator of one character: never an empty list.\<close>

fun str_split :: "char \<Rightarrow> string \<Rightarrow> string list" where
  "str_split sep [] = [[]]"
| "str_split sep (c # cs) =
     (if c = sep then [] # str_split sep cs
      else (case str_split sep cs of
              [] \<Rightarrow> [[c]]
            | w # ws \<Rightarrow> (c # w) # ws))"

text \<open>\<open>sep.join(parts)\<close>.\<close>

fun str_join :: "string \<Rightarrow> string list \<Rightarrow> string" where
  "str_join sep [] = []"
| "str_join sep [w] = w"
| "str_join sep (w # ws) = w @ sep @ str_join sep ws"

section \<open>Permissions and scopes (auth-api/app/services/permissions.py)\<close>

datatype Permission = oauth_clients

text \<open>\<open>permission.value\<close> and the member's name.\<close>

fun Permission_value :: "Permission \<Rightarrow> string" where
  "Permission_value oauth_clients = ''oauth_clients''"

definition Permission_members :: "(string \<times> Permission) list" where
  "Permission_members = [(''oauth_clients'', oauth_clients)]"

text \<open>\<open>Permission[name]\<close>: the member of that name, or \<open>KeyError\<close>.\<close>

definition Permission_getitem :: "string \<Rightarrow> exn + Permission" where
  "Permission_getitem name =
     (case map_of Permission_members name of
        None \<Rightarrow> Inl (KeyError name)
      | Some p \<Rightarrow> Inr p)"

definition SCOPE_PERMISSION_SEPARATOR :: char where
  "SCOPE_PERMISSION_SEPARATOR = CHR '',''"

definition SCOPE_ALLOWED_PERMISSIONS :: "string list" where
  "SCOPE_ALLOWED_PERMISSIONS = map Permission_value [oauth_clients]"

text \<open>
  A list comprehension \<open>[f(x) for x in xs]\<close> whose element expression may raise:
  the first exception ends it.
\<close>

fun comprehend :: "('a \<Rightarrow> exn + 'b) \<Rightarrow> 'a list \<Rightarrow> exn + 'b list" where
  "comprehend f [] = Inr []"
| "comprehend f (x # xs) =
     (case f x of
        Inl e \<Rightarrow> Inl e
      | Inr y \<Rightarrow> (case comprehend f xs of Inl e \<Rightarrow> Inl e | Inr ys \<Rightarrow> Inr (y # ys)))"

definition scope_token_kept :: "string \<Rightarrow> bool" where
  "scope_token_kept permission \<longleftrightarrow> permission \<in> set SCOPE_ALLOWED_PERMISSIONS \<and> permission \<noteq> []"

definition parse_permissions_from_scope :: "string \<Rightarrow> exn + Permission list" where
  "parse_permissions_from_scope scope =
     comprehend Permission_getitem
       (filter scope_token_kept (str_split SCOPE_PERMISSION_SEPARATOR scope))"

definition normalize_scope :: "string \<Rightarrow> exn + string" where
  "normalize_scope scope =
     (case parse_permissions_from_scope scope of
        Inl e \<Rightarrow> Inl e
      | Inr permissions \<Rightarrow>
          Inr (str_join [SCOPE_PERMISSION_SEPARATOR] (map Permission_value permissions)))"

text \<open>
  The parsing of a scope as the specification words it: every token of the split that is
  non-empty and the name of a permission gives that permission, the others give nothing;
  the specification then removes the duplicates, keeping first occurrences.
\<close>

definition recognized_permission :: "string \<Rightarrow> Permission option" where
  "recognized_permission name = (if name = [] then None else map_of Permission_members name)"

definition recognized_permissions :: "string \<Rightarrow> Permission list" where
  "recognized_permissions scope =
     List.map_filter recognized_permission (str_split SCOPE_PERMISSION_SEPARATOR scope)"

fun first_seen :: "'a list \<Rightarrow> 'a list" where
  "first_seen [] = []"
| "first_seen (x # xs) = x # first_seen (filter (\<lambda>y. y \<noteq> x) xs)"

definition parse_permissions_spec :: "string \<Rightarrow> Permission list" where
  "parse_permissions_spec scope = first_seen (recognized_permissions scope)"

section \<open>The permission module as the pipeline imports it\<close>

text \<open>
  \<open>api/app/services/request/auth.py\<close> uses three things of the module
  \<open>app.services.permissions\<close> of the api package: the member \<open>Permission.noexpire\<close>
  (an attribute lookup on the enumeration, which raises \<open>AttributeError\<close> when the
  enumeration has no such member), the function \<open>parse_permissions_from_scope\<close>, and
  \<open>permission.value\<close>. The pipeline below takes the module as a parameter.
\<close>

record 'p permissions_module =
  noexpire_member :: "exn + 'p"
  parse_scope :: "string \<Rightarrow> exn + 'p list"
  value_of :: "'p \<Rightarrow> string"

text \<open>
  Modelled from the spec: the module \<open>app.services.permissions\<close> of the api package is
  not among the sources (the \<open>permissions.py\<close> at hand is that of the auth-api package,
  whose enumeration has the one member \<open>oauth_clients\<close>). The enumeration of the api
  package declares the members the api code names, \<open>Permission.admin\<close> in
  \<open>routers/admin.py\<close> and \<open>Permission.noexpire\<close> in \<open>services/request/auth.py\<close>,
  and \<open>oauth_clients\<close> of section 8 of the specification. By section 4.2, parsing a
  scope splits on the separator, maps each non-empty recognized token to its permission,
  ignores the others, keeps the first-seen order of an ordered set and never raises.
\<close>

datatype ApiPermission = api_oauth_clients | api_admin | api_noexpire

fun ApiPermission_value :: "ApiPermission \<Rightarrow> string" where
  "ApiPermission_value api_oauth_clients = ''oauth_clients''"
| "ApiPermission_value api_admin = ''admin''"
| "ApiPermission_value api_noexpire = ''noexpire''"

definition ApiPermission_members :: "(string \<times> ApiPermission) list" where
  "ApiPermission_members =
     [(''oauth_clients'', api_oauth_clients), (''admin'', api_admin),
      (''noexpire'', api_noexpire)]"

text \<open>\<open>Permission.name\<close>: the member of that name, or \<open>AttributeError\<close>.\<close>

definition ApiPermission_getattr :: "string \<Rightarrow> exn + ApiPermission" where
  "ApiPermission_getattr name =
     (case map_of ApiPermission_members name of
        None \<Rightarrow> Inl (AttributeError name)
      | Some p \<Rightarrow> Inr p)"

definition api_recognized_permission :: "string \<Rightarrow> ApiPermission option" where
  "api_recognized_permission name =
     (if name = [] then None else map_of ApiPermission_members name)"

definition api_parse_permissions_from_scope :: "string \<Rightarrow> exn + ApiPermission list" where
  "api_parse_permissions_from_scope scope =
     Inr (first_seen
            (List.map_filter api_recognized_permission
               (str_split SCOPE_PERMISSION_SEPARATOR scope)))"

definition api_permissions :: "ApiPermission permissions_module" where
  "api_permissions =
     \<lparr>noexpire_member = ApiPermission_getattr ''noexpire'',
      parse_scope = api_parse_permissions_from_scope,
      value_of = ApiPermission_value\<rparr>"

section \<open>Tokens, sessions, users, requests\<close>

datatype token_class = AccessToken | SessionToken | RefreshToken | OAuthCode | EmailToken

text \<open>
  Modelled from the spec: the token classes of \<open>app/tokens/*.py\<close> are not among the
  sources. Section 3 of the specification gives every token a type tag distinguishing the
  variants; \<open>_decode_token\<close> compares the tag of the class with \<open>access\<close>.
\<close>

fun class_get_type :: "token_class \<Rightarrow> string" where
  "class_get_type AccessToken = ''access''"
| "class_get_type SessionToken = ''session''"
| "class_get_type RefreshToken = ''refresh''"
| "class_get_type OAuthCode = ''oauth_code''"
| "class_get_type EmailToken = ''email''"

text \<open>A value read from a token payload where the code tests \<open>isinstance(_, int)\<close>.\<close>

datatype pyval = PyInt int | PyStr string | PyNone

text \<open>A decoded token, by what its methods return.\<close>

record Token =
  get_type :: string
  get_subject :: int
  get_session_id :: pyval
  get_scope :: string
  signature_is_valid :: bool

record UserSession =
  sid :: int
  owner_id :: int
  token_secret :: string
  session_is_active :: bool

record User =
  uid :: int
  user_is_active :: bool
  password :: string
  time_online :: "nat option"

record Request =
  headers :: "string \<rightharpoonup> string"
  query_params :: "string \<rightharpoonup> string"

record 'p AuthData =
  auth_token :: Token
  auth_session :: UserSession
  auth_permissions :: "'p list"
  auth_user :: "User option"

text \<open>
  What the pipeline calls and the sources do not hold: the token codec
  (\<open>token_type.decode_unsigned(token)\<close>, \<open>token_type.decode(token, key=...)\<close>, each
  returning a token or raising), the client check \<open>session_check_client_by_request\<close>
  (returns, or raises) and the clock \<open>datetime.now()\<close>.
\<close>

record collaborators =
  decode_unsigned :: "token_class \<Rightarrow> string \<Rightarrow> exn + Token"
  decode :: "token_class \<Rightarrow> string \<Rightarrow> string \<Rightarrow> exn + Token"
  session_check_client_by_request :: "UserSession \<Rightarrow> Request \<Rightarrow> exn option"
  datetime_now :: nat

text \<open>
  The store and the calls made so far. Modelled from the spec: \<open>app.database.crud\<close> is
  not among the sources; by section 6, \<open>user_session.get_by_id\<close> and \<open>user.get_by_id\<close>
  return the record of that id or nothing.
\<close>

datatype event =
    DecodeUnsigned
  | SessionLookup int
  | ClientCheck
  | DecodeSigned
  | UserLookup int
  | Commit

record World =
  user_sessions :: "int \<rightharpoonup> UserSession"
  users :: "int \<rightharpoonup> User"
  trace :: "event list"

definition emit :: "event \<Rightarrow> World \<Rightarrow> World" where
  "emit ev w = w\<lparr>trace := trace w @ [ev]\<rparr>"

section \<open>The request authentication pipeline (api/app/services/request/auth.py)\<close>

definition raise_integrity_check_error :: exn where
  "raise_integrity_check_error =
     api_error AUTH_INVALID_TOKEN ''Authentication system integrity check failed!'' None"

text \<open>\<open>mapping.get(key, "")\<close>.\<close>

definition get_or_empty :: "(string \<rightharpoonup> string) \<Rightarrow> string \<Rightarrow> string" where
  "get_or_empty m k = (case m k of None \<Rightarrow> [] | Some v \<Rightarrow> v)"

definition get_token_from_request :: "Request \<Rightarrow> bool \<Rightarrow> string" where
  "get_token_from_request req only_session_token =
     (if only_session_token then get_or_empty (query_params req) ''session_token''
      else
        (let token_header = get_or_empty (headers req) ''Authorization'';
             token_param = get_or_empty (query_params req) ''access_token''
         in if token_header \<noteq> [] then token_header else token_param))"

text \<open>
  \<open>required_permissions\<close>: \<open>None\<close>, one permission, or a list. \<open>None\<close> and the empty list
  are false in \<open>if not required_permissions\<close>; one permission is made a list.
\<close>

datatype 'p required = RequiredNone | RequiredOne 'p | RequiredList "'p list"

fun required_list :: "'p required \<Rightarrow> 'p list" where
  "required_list RequiredNone = []"
| "required_list (RequiredOne p) = [p]"
| "required_list (RequiredList ps) = ps"

definition insufficient_permissions :: "string \<Rightarrow> exn" where
  "insufficient_permissions required_scope =
     api_error AUTH_INSUFFICIENT_PERMISSIONS
       (''Insufficient permissions to call this method! (required scope permissions: ''
          @ required_scope @ '')'')
       (Some [(''required_scope'', required_scope)])"

definition query_scope_permissions ::
  "'p permissions_module \<Rightarrow> string \<Rightarrow> 'p required \<Rightarrow> exn + 'p list" where
  "query_scope_permissions pm scope required_permissions =
     (case parse_scope pm scope of
        Inl e \<Rightarrow> Inl e
      | Inr permissions \<Rightarrow>
          if required_list required_permissions = [] then Inr permissions
          else
            (let unsatisfied_permissions =
                   filter (\<lambda>permission. permission \<notin> set permissions)
                     (required_list required_permissions)
             in if unsatisfied_permissions \<noteq> [] then
                  Inl (insufficient_permissions
                         (str_join '', '' (map (value_of pm) unsatisfied_permissions)))
                else Inr permissions))"

definition session_closed_error :: exn where
  "session_closed_error =
     api_error AUTH_INVALID_TOKEN ''Token is not usable as session was closed!'' None"

definition query_session_from_sid ::
  "collaborators \<Rightarrow> pyval \<Rightarrow> Request option \<Rightarrow> bool \<Rightarrow> World \<Rightarrow> (exn + UserSession) \<times> World" where
  "query_session_from_sid cb session_id request allow_external_clients w =
     (case session_id of
        PyInt n \<Rightarrow>
          (let w1 = emit (SessionLookup n) w in
           case user_sessions w n of
             None \<Rightarrow> (Inl raise_integrity_check_error, w1)
           | Some session \<Rightarrow>
               if \<not> session_is_active session then (Inl session_closed_error, w1)
               else
                 (case request of
                    None \<Rightarrow> (Inr session, w1)
                  | Some req \<Rightarrow>
                      if \<not> allow_external_clients then
                        (case session_check_client_by_request cb session req of
                           Some e \<Rightarrow> (Inl e, emit ClientCheck w1)
                         | None \<Rightarrow> (Inr session, emit ClientCheck w1))
                      else (Inr session, w1)))
      | PyStr _ \<Rightarrow> (Inl raise_integrity_check_error, w)
      | PyNone \<Rightarrow> (Inl raise_integrity_check_error, w))"

text \<open>
  \<open>(Permission.noexpire in permissions) if not allow_external_clients else True\<close>:
  the member is looked up only when \<open>allow_external_clients\<close> is false.
\<close>

definition external_clients_allowed ::
  "'p permissions_module \<Rightarrow> 'p list \<Rightarrow> bool \<Rightarrow> exn + bool" where
  "external_clients_allowed pm permissions allow_external_clients =
     (if \<not> allow_external_clients then
        (case noexpire_member pm of
           Inl e \<Rightarrow> Inl e
         | Inr noexpire \<Rightarrow> Inr (noexpire \<in> set permissions))
      else Inr True)"

definition invalid_signature_error :: exn where
  "invalid_signature_error =
     api_error AUTH_INVALID_TOKEN ''Unable to validate signature of the token!'' None"

definition decode_token ::
  "collaborators \<Rightarrow> 'p permissions_module \<Rightarrow> string \<Rightarrow> token_class \<Rightarrow> 'p required
     \<Rightarrow> Request option \<Rightarrow> bool \<Rightarrow> World \<Rightarrow> (exn + 'p AuthData) \<times> World" where
  "decode_token cb pm token token_type required_permissions request allow_external_clients w =
     (if token_type \<noteq> AccessToken \<and> token_type \<noteq> SessionToken then
        (Inl (ValueError
           ''Unexpected type of the token type inside _decode_token! Should be access or session!''), w)
      else if token = [] then (Inl (api_error AUTH_REQUIRED ''Authentication required!'' None), w)
      else
        (let w1 = emit DecodeUnsigned w in
         case decode_unsigned cb token_type token of
           Inl e \<Rightarrow> (Inl e, w1)
         | Inr unsigned_token \<Rightarrow>
             (let scope = (if class_get_type token_type = ''access''
                           then get_scope unsigned_token else [])
              in case query_scope_permissions pm scope required_permissions of
                   Inl e \<Rightarrow> (Inl e, w1)
                 | Inr permissions \<Rightarrow>
                     (case external_clients_allowed pm permissions allow_external_clients of
                        Inl e \<Rightarrow> (Inl e, w1)
                      | Inr allow \<Rightarrow>
                          (case query_session_from_sid cb (get_session_id unsigned_token)
                                  request allow w1 of
                             (Inl e, w2) \<Rightarrow> (Inl e, w2)
                           | (Inr session, w2) \<Rightarrow>
                               (let w3 = emit DecodeSigned w2 in
                                case decode cb token_type token (token_secret session) of
                                  Inl e \<Rightarrow> (Inl e, w3)
                                | Inr signed_token \<Rightarrow>
                                    if \<not> signature_is_valid signed_token
                                    then (Inl invalid_signature_error, w3)
                                    else (Inr \<lparr>auth_token = signed_token,
                                               auth_session = session,
                                               auth_permissions = permissions,
                                               auth_user = None\<rparr>, w3)))))))"

definition user_deactivated_error :: exn where
  "user_deactivated_error =
     api_error USER_DEACTIVATED
       ''User account currently deactivated and this method does not allow deactivated users!''
       None"

definition query_auth_data ::
  "collaborators \<Rightarrow> 'p AuthData \<Rightarrow> bool \<Rightarrow> bool \<Rightarrow> World \<Rightarrow> (exn + 'p AuthData) \<times> World" where
  "query_auth_data cb auth_data allow_deactivated trigger_online_update w =
     (let user_id = get_subject (auth_token auth_data);
          w1 = emit (UserLookup user_id) w
      in case users w user_id of
           None \<Rightarrow> (Inl raise_integrity_check_error, w1)
         | Some user \<Rightarrow>
             if owner_id (auth_session auth_data) \<noteq> uid user
             then (Inl raise_integrity_check_error, w1)
             else if \<not> user_is_active user \<and> \<not> allow_deactivated
             then (Inl user_deactivated_error, w1)
             else if trigger_online_update then
               (let user' = user\<lparr>time_online := Some (datetime_now cb)\<rparr>;
                    w2 = emit Commit (w1\<lparr>users := (users w1)(user_id \<mapsto> user')\<rparr>)
                in (Inr (auth_data\<lparr>auth_user := Some user'\<rparr>), w2))
             else (Inr (auth_data\<lparr>auth_user := Some user\<rparr>), w1))"

definition query_auth_data_from_token ::
  "collaborators \<Rightarrow> 'p permissions_module \<Rightarrow> string \<Rightarrow> bool \<Rightarrow> 'p required \<Rightarrow> bool \<Rightarrow> bool
     \<Rightarrow> bool \<Rightarrow> Request option \<Rightarrow> World \<Rightarrow> (exn + 'p AuthData) \<times> World" where
  "query_auth_data_from_token cb pm token only_session_token required_permissions
       allow_deactivated allow_external_clients trigger_online_update request w =
     (let token_type = (if only_session_token then SessionToken else AccessToken) in
      case decode_token cb pm token token_type required_permissions request
             allow_external_clients w of
        (Inl e, w1) \<Rightarrow> (Inl e, w1)
      | (Inr auth_data, w1) \<Rightarrow>
          if only_session_token
             \<and> get_type (auth_token auth_data) \<noteq> class_get_type SessionToken
          then (Inl raise_integrity_check_error, w1)
          else query_auth_data cb auth_data allow_deactivated trigger_online_update w1)"

definition query_auth_data_from_request ::
  "collaborators \<Rightarrow> 'p permissions_module \<Rightarrow> Request \<Rightarrow> bool \<Rightarrow> 'p required \<Rightarrow> bool \<Rightarrow> bool
     \<Rightarrow> bool \<Rightarrow> World \<Rightarrow> (exn + 'p AuthData) \<times> World" where
  "query_auth_data_from_request cb pm req only_session_token required_permissions
       allow_deactivated allow_external_clients trigger_online_update w =
     (let token = get_token_from_request req only_session_token in
      query_auth_data_from_token cb pm token only_session_token required_permissions
        allow_deactivated allow_external_clients trigger_online_update (Some req) w)"

text \<open>
  \<open>try_query_auth_data_from_request\<close>: the pair \<open>(True, auth_data)\<close>, the pair
  \<open>(False, None)\<close> when an \<open>ApiErrorException\<close> was caught, or the exception that the
  \<open>except\<close> clause does not catch. The online update is left at its default, true.
\<close>

definition try_query_auth_data_from_request ::
  "collaborators \<Rightarrow> 'p permissions_module \<Rightarrow> Request \<Rightarrow> bool \<Rightarrow> 'p required \<Rightarrow> bool \<Rightarrow> bool
     \<Rightarrow> World \<Rightarrow> (exn + bool \<times> 'p AuthData option) \<times> World" where
  "try_query_auth_data_from_request cb pm req only_session_token required_permissions
       allow_deactivated allow_external_clients w =
     (case query_auth_data_from_request cb pm req only_session_token required_permissions
             allow_deactivated allow_external_clients True w of
        (Inr auth_data, w1) \<Rightarrow> (Inr (True, Some auth_data), w1)
      | (Inl e, w1) \<Rightarrow>
          if is_ApiErrorException e then (Inr (False, None), w1) else (Inl e, w1))"

section \<open>Sign-in validation (api/app/services/validators/user.py)\<close>

definition invalid_credentials_error :: exn where
  "invalid_credentials_error =
     api_error AUTH_INVALID_CREDENTIALS ''Invalid credentials for authentication.'' None"

text \<open>
  \<open>validate_signin_fields(user, password)\<close>: the exception raised, if any.
  \<open>check_password\<close> is the opaque comparator of \<open>app.services.passwords\<close>.
\<close>

definition validate_signin_fields ::
  "(string \<Rightarrow> string \<Rightarrow> bool) \<Rightarrow> User option \<Rightarrow> string \<Rightarrow> exn option" where
  "validate_signin_fields check_password user pw =
     (case user of
        None \<Rightarrow> Some invalid_credentials_error
      | Some u \<Rightarrow>
          if \<not> check_password pw (password u) then Some invalid_credentials_error
          else None)"

section \<open>Reading an exception\<close>

fun exn_api_code :: "exn \<Rightarrow> ApiErrorCode option" where
  "exn_api_code (ApiErrorException e) = Some (api_code e)"
| "exn_api_code _ = None"

fun exn_message :: "exn \<Rightarrow> string option" where
  "exn_message (ApiErrorException e) = Some (message e)"
| "exn_message _ = None"

section \<open>A concrete store, codec and requests\<close>

text \<open>
  One user (id 7), one session (id 1) of that user with the secret \<open>secret\<close>, and a codec
  that knows the token string \<open>tok\<close> (an access token of user 7 in session 1 with the
  scope \<open>oauth_clients\<close>, validly signed under \<open>secret\<close>) and the expired token
  string \<open>old\<close>.
\<close>

definition demo_token :: Token where
  "demo_token =
     \<lparr>get_type = ''access'', get_subject = 7, get_session_id = PyInt 1,
      get_scope = ''oauth_clients'', signature_is_valid = True\<rparr>"

definition demo_collaborators :: collaborators where
  "demo_collaborators =
     \<lparr>decode_unsigned =
        (\<lambda>c t. if t = ''tok'' then Inr demo_token
                else if t = ''old'' then Inl TokenExpiredError
                else Inl TokenInvalidError),
      decode =
        (\<lambda>c t k. if t = ''tok'' then Inr (demo_token\<lparr>signature_is_valid := (k = ''secret'')\<rparr>)
                  else Inl TokenInvalidError),
      session_check_client_by_request = (\<lambda>s r. None),
      datetime_now = 100\<rparr>"

definition demo_session :: UserSession where
  "demo_session = \<lparr>sid = 1, owner_id = 7, token_secret = ''secret'', session_is_active = True\<rparr>"

definition demo_user :: User where
  "demo_user = \<lparr>uid = 7, user_is_active = True, password = ''hash'', time_online = None\<rparr>"

definition demo_world :: World where
  "demo_world =
     \<lparr>user_sessions = [1 \<mapsto> demo_session], users = [7 \<mapsto> demo_user], trace = []\<rparr>"

definition closed_world :: World where
  "closed_world =
     \<lparr>user_sessions = [1 \<mapsto> demo_session\<lparr>session_is_active := False\<rparr>],
      users = [7 \<mapsto> demo_user], trace = []\<rparr>"

definition demo_request :: "string \<Rightarrow> Request" where
  "demo_request t = \<lparr>headers = [''Authorization'' \<mapsto> t], query_params = Map.empty\<rparr>"

definition empty_request :: Request where
  "empty_request = \<lparr>headers = Map.empty, query_params = Map.empty\<rparr>"

definition demo_auth_data :: "ApiPermission AuthData" where
  "demo_auth_data =
     \<lparr>auth_token = demo_token, auth_session = demo_session,
      auth_permissions = [api_oauth_clients], auth_user = None\<rparr>"

section \<open>Scope parsing and normalisation\<close>

lemma str_split_no_sep: "sep \<notin> set w \<Longrightarrow> str_split sep w = [w]"
  by (induction w) auto

lemma str_split_append_sep:
  "sep \<notin> set w \<Longrightarrow> str_split sep (w @ sep # rest) = w # str_split sep rest"
  by (induction w) auto

lemma str_split_join:
  "ws \<noteq> [] \<Longrightarrow> \<forall>w\<in>set ws. sep \<notin> set w \<Longrightarrow> str_split sep (str_join [sep] ws) = ws"
proof (induction "[sep]" ws rule: str_join.induct)
  case 1
  then show ?case by simp
next
  case (2 w)
  then show ?case by (simp add: str_split_no_sep)
next
  case (3 w v vs)
  then show ?case by (simp add: str_split_append_sep)
qed

lemma scope_token_kept_iff: "scope_token_kept p \<longleftrightarrow> p = ''oauth_clients''"
  by (auto simp: scope_token_kept_def SCOPE_ALLOWED_PERMISSIONS_def)

lemma comprehend_getitem_kept:
  "comprehend Permission_getitem (filter scope_token_kept ws) =
     Inr (List.map_filter recognized_permission ws)"
  by (induction ws)
     (auto simp: scope_token_kept_iff Permission_getitem_def Permission_members_def
        recognized_permission_def)

lemma parse_recognized:
  "parse_permissions_from_scope scope = Inr (recognized_permissions scope)"
  by (simp add: parse_permissions_from_scope_def recognized_permissions_def
      comprehend_getitem_kept)

lemma recognized_join:
  "recognized_permissions (str_join [SCOPE_PERMISSION_SEPARATOR] (map Permission_value ps)) = ps"
proof (cases ps)
  case Nil
  then show ?thesis
    by (simp add: recognized_permissions_def recognized_permission_def)
next
  case (Cons p qs)
  have sep: "\<forall>w\<in>set (map Permission_value ps). SCOPE_PERMISSION_SEPARATOR \<notin> set w"
  proof
    fix w assume "w \<in> set (map Permission_value ps)"
    then obtain q where "w = Permission_value q" by auto
    then show "SCOPE_PERMISSION_SEPARATOR \<notin> set w"
      by (cases q) (simp add: SCOPE_PERMISSION_SEPARATOR_def)
  qed
  have ne: "map Permission_value ps \<noteq> []" using Cons by simp
  have names: "List.map_filter recognized_permission (map Permission_value rs) = rs" for rs
  proof (induction rs)
    case Nil
    then show ?case by simp
  next
    case (Cons r rs)
    then show ?case
      by (cases r) (simp add: recognized_permission_def Permission_members_def)
  qed
  show ?thesis
    unfolding recognized_permissions_def str_split_join [OF ne sep] by (rule names)
qed

text \<open>
  C3, as the specification states it, fails: \<open>parse_permissions_from_scope\<close> does not
  remove duplicates. The scope \<open>oauth_clients,oauth_clients\<close> parses to two entries,
  where the de-duplicated, first-seen list of the specification has one.
\<close>

theorem parse_permissions_keeps_duplicates:
  "parse_permissions_from_scope ''oauth_clients,oauth_clients'' = Inr [oauth_clients, oauth_clients]
   \<and> parse_permissions_spec ''oauth_clients,oauth_clients'' = [oauth_clients]
   \<and> parse_permissions_from_scope ''oauth_clients,oauth_clients''
       \<noteq> Inr (parse_permissions_spec ''oauth_clients,oauth_clients'')"
  by (simp add: parse_recognized parse_permissions_spec_def recognized_permissions_def
      SCOPE_PERMISSION_SEPARATOR_def recognized_permission_def Permission_members_def)

text \<open>
  C3, amended: for every scope string, \<open>parse_permissions_from_scope\<close> never raises and
  returns, in the order of the split on the comma, one permission for every token that is
  non-empty and the name of a permission (an entry per occurrence: duplicates are kept),
  dropping the unrecognized and the empty tokens; \<open>oauth_clients,bogus,\<close> gives exactly
  the single permission \<open>oauth_clients\<close>.
\<close>

theorem parse_permissions_from_scope_recognized:
  "parse_permissions_from_scope scope = Inr (recognized_permissions scope)
   \<and> parse_permissions_from_scope ''oauth_clients,bogus,'' = Inr [oauth_clients]"
  by (simp add: parse_recognized recognized_permissions_def
      SCOPE_PERMISSION_SEPARATOR_def recognized_permission_def Permission_members_def)

text \<open>
  C8: \<open>normalize_scope\<close> returns the comma-join of the names of the parsed permissions;
  parsing the normalised scope gives the same permission list as parsing the scope; and
  normalising the normalised scope gives it back.
\<close>

theorem normalize_scope_canonical:
  "\<exists>ps n. parse_permissions_from_scope scope = Inr ps
     \<and> n = str_join [SCOPE_PERMISSION_SEPARATOR] (map Permission_value ps)
     \<and> normalize_scope scope = Inr n
     \<and> parse_permissions_from_scope n = Inr ps
     \<and> normalize_scope n = Inr n"
  by (simp add: normalize_scope_def parse_recognized recognized_join)

section \<open>Steps of the pipeline that returned\<close>

lemma query_session_from_sid_Inr:
  assumes "query_session_from_sid cb session_id request allow w = (Inr s, w')"
  shows "\<exists>n. session_id = PyInt n \<and> user_sessions w n = Some s \<and> session_is_active s
           \<and> users w' = users w \<and> user_sessions w' = user_sessions w"
  using assms
  by (auto simp: query_session_from_sid_def Let_def emit_def
      split: pyval.splits option.splits if_splits)

lemma decode_token_Inr:
  assumes "decode_token cb pm token token_type required request ae w = (Inr ad, w')"
  shows "\<exists>u ps allow session w2.
           token \<noteq> [] \<and> decode_unsigned cb token_type token = Inr u
         \<and> query_scope_permissions pm
              (if class_get_type token_type = ''access'' then get_scope u else []) required = Inr ps
         \<and> external_clients_allowed pm ps ae = Inr allow
         \<and> query_session_from_sid cb (get_session_id u) request allow (emit DecodeUnsigned w)
             = (Inr session, w2)
         \<and> decode cb token_type token (token_secret session) = Inr (auth_token ad)
         \<and> signature_is_valid (auth_token ad)
         \<and> auth_session ad = session \<and> auth_permissions ad = ps \<and> auth_user ad = None
         \<and> w' = emit DecodeSigned w2"
  using assms
  unfolding decode_token_def Let_def
  by (auto split: if_splits sum.splits prod.splits)

lemma query_auth_data_Inr:
  assumes "query_auth_data cb ad allow_deactivated trigger w = (Inr ad', w')"
  shows "\<exists>u. users w (get_subject (auth_token ad)) = Some u
           \<and> owner_id (auth_session ad) = uid u
           \<and> (user_is_active u \<or> allow_deactivated)
           \<and> auth_user ad' = Some (if trigger then u\<lparr>time_online := Some (datetime_now cb)\<rparr> else u)
           \<and> auth_token ad' = auth_token ad \<and> auth_session ad' = auth_session ad
           \<and> auth_permissions ad' = auth_permissions ad"
  using assms
  unfolding query_auth_data_def Let_def
  by (auto split: if_splits option.splits)

section \<open>Integrity failures\<close>

text \<open>
  C1, as the specification states it, fails: an integrity failure and the ordinary
  invalid-token error of a closed session are both an \<open>ApiErrorException\<close> with the code
  \<open>AUTH_INVALID_TOKEN\<close>. A session id that is a string gives the first, the
  deactivated session 1 the second.
\<close>

theorem integrity_error_has_invalid_token_code:
  "fst (query_session_from_sid demo_collaborators (PyStr ''1'') None False demo_world)
     = Inl raise_integrity_check_error
   \<and> fst (query_session_from_sid demo_collaborators (PyInt 1) None False closed_world)
     = Inl session_closed_error
   \<and> is_ApiErrorException raise_integrity_check_error
   \<and> is_ApiErrorException session_closed_error
   \<and> exn_api_code raise_integrity_check_error = Some AUTH_INVALID_TOKEN
   \<and> exn_api_code session_closed_error = Some AUTH_INVALID_TOKEN"
  by (simp add: query_session_from_sid_def closed_world_def demo_session_def
      raise_integrity_check_error_def session_closed_error_def api_error_def Let_def)

text \<open>
  C1, amended: every integrity failure (a session id in the token payload that is not an
  integer, a session lookup that finds no session, a resolved user that does not exist, a
  session owner id different from the resolved user's id) is reported as the same
  \<open>ApiErrorException\<close>, with the code \<open>AUTH_INVALID_TOKEN\<close> that the ordinary
  invalid-token errors carry and the message
  \<open>Authentication system integrity check failed!\<close>, which differs from the messages of
  the closed-session and the invalid-signature errors: a caller tells an integrity failure
  apart by the message only.
\<close>

theorem integrity_failures_reported:
  "fst (query_session_from_sid cb (PyStr s) request allow w) = Inl raise_integrity_check_error
   \<and> fst (query_session_from_sid cb PyNone request allow w) = Inl raise_integrity_check_error
   \<and> (user_sessions w n = None \<longrightarrow>
        fst (query_session_from_sid cb (PyInt n) request allow w) = Inl raise_integrity_check_error)
   \<and> (users wa (get_subject (auth_token ada)) = None \<longrightarrow>
        fst (query_auth_data cb (ada :: 'p AuthData) allow_deactivated trigger wa)
          = Inl raise_integrity_check_error)
   \<and> (users wb (get_subject (auth_token adb)) = Some u \<and> owner_id (auth_session adb) \<noteq> uid u \<longrightarrow>
        fst (query_auth_data cb (adb :: 'p AuthData) allow_deactivated trigger wb)
          = Inl raise_integrity_check_error)
   \<and> exn_api_code raise_integrity_check_error = Some AUTH_INVALID_TOKEN
   \<and> exn_message raise_integrity_check_error
       = Some ''Authentication system integrity check failed!''
   \<and> exn_message session_closed_error \<noteq> exn_message raise_integrity_check_error
   \<and> exn_message invalid_signature_error \<noteq> exn_message raise_integrity_check_error"
  by (simp add: query_session_from_sid_def query_auth_data_def Let_def
      raise_integrity_check_error_def session_closed_error_def invalid_signature_error_def
      api_error_def)

text \<open>
  The amended C1 on the concrete store: no session 2; no user 8, the subject of a token;
  and a session owned by user 9 beside a token of user 7.
\<close>

theorem integrity_failures_reported_witness:
  "user_sessions demo_world 2 = None
   \<and> fst (query_session_from_sid demo_collaborators (PyInt 2) None False demo_world)
       = Inl raise_integrity_check_error
   \<and> users demo_world
        (get_subject (auth_token (demo_auth_data\<lparr>auth_token := demo_token\<lparr>get_subject := 8\<rparr>\<rparr>)))
       = None
   \<and> fst (query_auth_data demo_collaborators
             (demo_auth_data\<lparr>auth_token := demo_token\<lparr>get_subject := 8\<rparr>\<rparr>) False True demo_world)
       = Inl raise_integrity_check_error
   \<and> users demo_world
        (get_subject (auth_token (demo_auth_data\<lparr>auth_session := demo_session\<lparr>owner_id := 9\<rparr>\<rparr>)))
       = Some demo_user
   \<and> owner_id (auth_session (demo_auth_data\<lparr>auth_session := demo_session\<lparr>owner_id := 9\<rparr>\<rparr>))
       \<noteq> uid demo_user
   \<and> fst (query_auth_data demo_collaborators
             (demo_auth_data\<lparr>auth_session := demo_session\<lparr>owner_id := 9\<rparr>\<rparr>) False True demo_world)
       = Inl raise_integrity_check_error"
proof -
  have h1: "user_sessions demo_world 2 = None"
    by (simp add: demo_world_def)
  have h2: "users demo_world
        (get_subject (auth_token (demo_auth_data\<lparr>auth_token := demo_token\<lparr>get_subject := 8\<rparr>\<rparr>)))
       = None"
    by (simp add: demo_world_def)
  have h3: "users demo_world
        (get_subject (auth_token (demo_auth_data\<lparr>auth_session := demo_session\<lparr>owner_id := 9\<rparr>\<rparr>)))
       = Some demo_user"
    by (simp add: demo_world_def demo_auth_data_def demo_token_def)
  have h4: "owner_id (auth_session (demo_auth_data\<lparr>auth_session := demo_session\<lparr>owner_id := 9\<rparr>\<rparr>))
       \<noteq> uid demo_user"
    by (simp add: demo_user_def)
  show ?thesis
    using h1 h2 h3 h4
      integrity_failures_reported [where w = demo_world and n = 2 and wa = demo_world
        and ada = "demo_auth_data\<lparr>auth_token := demo_token\<lparr>get_subject := 8\<rparr>\<rparr>"
        and wb = demo_world
        and adb = "demo_auth_data\<lparr>auth_session := demo_session\<lparr>owner_id := 9\<rparr>\<rparr>"
        and u = demo_user and cb = demo_collaborators and request = None and allow = False
        and allow_deactivated = False and trigger = True]
    by blast
qed


section \<open>The client-binding check\<close>







section \<open>The non-raising variant\<close>

lemma try_query_auth_data_from_request_cases:
  "try_query_auth_data_from_request cb pm req only required ad ae w
     = (case query_auth_data_from_request cb pm req only required ad ae True w of
          (Inr a, wa) \<Rightarrow> (Inr (True, Some a), wa)
        | (Inl (ApiErrorException e), wa) \<Rightarrow> (Inr (False, None), wa)
        | (Inl e, wa) \<Rightarrow> (Inl e, wa))"
  by (auto simp: try_query_auth_data_from_request_def split: prod.splits sum.splits exn.splits)

text \<open>
  C4 on the sources: a request whose \<open>Authorization\<close> header holds the expired token
  \<open>old\<close>. The unsigned decode raises \<open>TokenExpiredError\<close>, which is no
  \<open>ApiErrorException\<close>, and \<open>try_query_auth_data_from_request\<close> lets it through
  instead of returning \<open>(False, None)\<close>.
\<close>

theorem try_query_propagates_token_error:
  "fst (try_query_auth_data_from_request demo_collaborators api_permissions (demo_request ''old'')
          False RequiredNone False allow_external_clients demo_world) = Inl TokenExpiredError"
  by (simp add: try_query_auth_data_from_request_def query_auth_data_from_request_def
      query_auth_data_from_token_def decode_token_def Let_def demo_collaborators_def
      get_token_from_request_def get_or_empty_def demo_request_def)

section \<open>The permission check\<close>

text \<open>
  C5: with the held permissions \<open>H\<close> parsed from the scope and the required list \<open>R\<close>,
  the check filters \<open>R\<close> by absence from \<open>H\<close>, in the order of \<open>R\<close>; when nothing is
  left it returns \<open>H\<close> unchanged, otherwise it raises the insufficient-permissions error
  whose data holds, under \<open>required_scope\<close>, the joined names of what is left. Requiring
  \<open>[oauth_clients]\<close> against the empty scope carries \<open>oauth_clients\<close> there.
\<close>

theorem query_scope_permissions_check:
  "(parse_scope pm scope = Inr H \<longrightarrow>
     query_scope_permissions pm scope (RequiredList R)
       = (if filter (\<lambda>p. p \<notin> set H) R = [] then Inr H
          else Inl (api_error AUTH_INSUFFICIENT_PERMISSIONS
                 (''Insufficient permissions to call this method! (required scope permissions: ''
                    @ str_join '', '' (map (value_of pm) (filter (\<lambda>p. p \<notin> set H) R)) @ '')'')
                 (Some [(''required_scope'',
                     str_join '', '' (map (value_of pm) (filter (\<lambda>p. p \<notin> set H) R)))]))))
   \<and> query_scope_permissions api_permissions [] (RequiredList [api_oauth_clients])
       = Inl (api_error AUTH_INSUFFICIENT_PERMISSIONS
            ''Insufficient permissions to call this method! (required scope permissions: oauth_clients)''
            (Some [(''required_scope'', ''oauth_clients'')]))"
proof -
  have general: "parse_scope pm scope = Inr H \<longrightarrow>
     query_scope_permissions pm scope (RequiredList R)
       = (if filter (\<lambda>p. p \<notin> set H) R = [] then Inr H
          else Inl (api_error AUTH_INSUFFICIENT_PERMISSIONS
                 (''Insufficient permissions to call this method! (required scope permissions: ''
                    @ str_join '', '' (map (value_of pm) (filter (\<lambda>p. p \<notin> set H) R)) @ '')'')
                 (Some [(''required_scope'',
                     str_join '', '' (map (value_of pm) (filter (\<lambda>p. p \<notin> set H) R)))])))"
    by (cases R) (simp_all add: query_scope_permissions_def Let_def insufficient_permissions_def)
  have example: "query_scope_permissions api_permissions [] (RequiredList [api_oauth_clients])
       = Inl (api_error AUTH_INSUFFICIENT_PERMISSIONS
            ''Insufficient permissions to call this method! (required scope permissions: oauth_clients)''
            (Some [(''required_scope'', ''oauth_clients'')]))"
    by (simp add: query_scope_permissions_def api_permissions_def
        api_parse_permissions_from_scope_def api_recognized_permission_def
        insufficient_permissions_def)
  from general example show ?thesis by (rule conjI)
qed

text \<open>
  C5 on the scope \<open>oauth_clients\<close>, which holds the one permission: requiring it twice
  leaves nothing unsatisfied and returns the held list.
\<close>

theorem query_scope_permissions_check_witness:
  "parse_scope api_permissions ''oauth_clients'' = Inr [api_oauth_clients]
   \<and> query_scope_permissions api_permissions ''oauth_clients''
        (RequiredList [api_oauth_clients, api_oauth_clients]) = Inr [api_oauth_clients]"
proof -
  have h: "parse_scope api_permissions ''oauth_clients'' = Inr [api_oauth_clients]"
    by (simp add: api_permissions_def api_parse_permissions_from_scope_def
        api_recognized_permission_def SCOPE_PERMISSION_SEPARATOR_def ApiPermission_members_def)
  from query_scope_permissions_check
         [where pm = api_permissions and scope = "''oauth_clients''"
            and H = "[api_oauth_clients]"
            and R = "[api_oauth_clients, api_oauth_clients]"] h
  show ?thesis by simp
qed


text \<open>
  C6: when the token is not empty, its unsigned decode returns, and the required
  permissions are not all among those parsed from the held scope (the scope of the
  unsigned token for an access token, the empty scope for a session token), the pipeline
  raises the insufficient-permissions error and has made one call only, the unsigned
  decode: no session lookup, client check, signed decode, user lookup or commit, and the
  store is as it was.
\<close>

theorem insufficient_permissions_before_session_io:
  assumes "token \<noteq> []"
    and "decode_unsigned cb (if only_session_token then SessionToken else AccessToken) token
           = Inr u"
    and "parse_scope pm (if only_session_token then [] else get_scope u) = Inr H"
    and "filter (\<lambda>p. p \<notin> set H) (required_list required) \<noteq> []"
  shows "query_auth_data_from_token cb pm token only_session_token required
           allow_deactivated allow_external_clients trigger_online_update request w
         = (Inl (insufficient_permissions
                  (str_join '', '' (map (value_of pm)
                     (filter (\<lambda>p. p \<notin> set H) (required_list required))))),
            w\<lparr>trace := trace w @ [DecodeUnsigned]\<rparr>)"
proof -
  from assms(4) have req: "required_list required \<noteq> []" by auto
  show ?thesis
  proof (cases only_session_token)
    case True
    with assms req show ?thesis
      by (simp add: query_auth_data_from_token_def decode_token_def Let_def
          query_scope_permissions_def emit_def)
  next
    case False
    with assms req show ?thesis
      by (simp add: query_auth_data_from_token_def decode_token_def Let_def
          query_scope_permissions_def emit_def)
  qed
qed

text \<open>
  C6 on the concrete store: the token \<open>tok\<close> presented as a session token, with
  \<open>oauth_clients\<close> required. The held scope is the empty one, and the call ends in the
  insufficient-permissions error after the unsigned decode alone.
\<close>

theorem insufficient_permissions_before_session_io_witness:
  "''tok'' \<noteq> []
   \<and> decode_unsigned demo_collaborators (if True then SessionToken else AccessToken) ''tok''
       = Inr demo_token
   \<and> parse_scope api_permissions (if True then [] else get_scope demo_token) = Inr []
   \<and> filter (\<lambda>p. p \<notin> set []) (required_list (RequiredList [api_oauth_clients])) \<noteq> []
   \<and> query_auth_data_from_token demo_collaborators api_permissions ''tok'' True
        (RequiredList [api_oauth_clients]) False False True None demo_world
       = (Inl (insufficient_permissions ''oauth_clients''),
          demo_world\<lparr>trace := trace demo_world @ [DecodeUnsigned]\<rparr>)"
proof -
  have h1: "''tok'' \<noteq> []" by simp
  have h2: "decode_unsigned demo_collaborators (if True then SessionToken else AccessToken) ''tok''
       = Inr demo_token"
    by (simp add: demo_collaborators_def)
  have h3: "parse_scope api_permissions (if True then [] else get_scope demo_token) = Inr []"
    by (simp add: api_permissions_def api_parse_permissions_from_scope_def
        api_recognized_permission_def)
  have h4: "filter (\<lambda>p. p \<notin> set []) (required_list (RequiredList [api_oauth_clients])) \<noteq> []"
    by simp
  from insufficient_permissions_before_session_io [OF h1 h2 h3 h4,
         of False False True None demo_world]
  have "query_auth_data_from_token demo_collaborators api_permissions ''tok'' True
        (RequiredList [api_oauth_clients]) False False True None demo_world
       = (Inl (insufficient_permissions ''oauth_clients''),
          demo_world\<lparr>trace := trace demo_world @ [DecodeUnsigned]\<rparr>)"
    by (simp add: api_permissions_def)
  with h1 h2 h3 h4 show ?thesis by blast
qed

section \<open>Sign-in validation\<close>

text \<open>
  C7: for every password, \<open>validate_signin_fields\<close> raises one and the same
  invalid-credentials error (code, message and data) when there is no user and when the
  user exists and the password does not match the stored hash; when the user exists and
  the password matches, it raises nothing.
\<close>

theorem validate_signin_fields_indistinguishable:
  "validate_signin_fields check_password None pw = Some invalid_credentials_error
   \<and> validate_signin_fields check_password (Some u) pw
       = (if check_password pw (password u) then None else Some invalid_credentials_error)
   \<and> invalid_credentials_error
       = ApiErrorException \<lparr>api_code = AUTH_INVALID_CREDENTIALS,
            message = ''Invalid credentials for authentication.'', data = None\<rparr>"
  by (simp add: validate_signin_fields_def invalid_credentials_error_def api_error_def)

section \<open>Token extraction\<close>

text \<open>
  C9: outside session-token-only mode the extracted token is the \<open>Authorization\<close>
  header, and the \<open>access_token\<close> query parameter when the header is absent or empty;
  in session-token-only mode it is the \<open>session_token\<close> query parameter; and when the
  extracted token is empty the pipeline raises the authentication-required error with
  nothing decoded, nothing looked up and the store as it was.
\<close>

theorem token_extraction_and_auth_required:
  "get_token_from_request req False
     = (case headers req ''Authorization'' of
          None \<Rightarrow> get_or_empty (query_params req) ''access_token''
        | Some h \<Rightarrow> if h = [] then get_or_empty (query_params req) ''access_token'' else h)
   \<and> get_token_from_request req True = get_or_empty (query_params req) ''session_token''
   \<and> (get_token_from_request rq only = [] \<longrightarrow>
        query_auth_data_from_request cb pm rq only required allow_deactivated
            allow_external_clients trigger w
          = (Inl (api_error AUTH_REQUIRED ''Authentication required!'' None), w))"
  by (auto simp: get_token_from_request_def get_or_empty_def Let_def
      query_auth_data_from_request_def query_auth_data_from_token_def decode_token_def
      split: option.splits)

text \<open>C9 on a request with no header and no query parameter.\<close>

theorem token_extraction_and_auth_required_witness:
  "get_token_from_request empty_request False = []
   \<and> query_auth_data_from_request demo_collaborators api_permissions empty_request False
        RequiredNone False False True demo_world
       = (Inl (api_error AUTH_REQUIRED ''Authentication required!'' None), demo_world)"
proof -
  have h: "get_token_from_request empty_request False = []"
    by (simp add: get_token_from_request_def get_or_empty_def empty_request_def)
  from token_extraction_and_auth_required
         [where rq = empty_request and only = False and cb = demo_collaborators
            and pm = api_permissions and required = RequiredNone and allow_deactivated = False
            and allow_external_clients = False and trigger = True and w = demo_world] h
  show ?thesis by blast
qed

section \<open>The authenticated context\<close>

text \<open>
  C10: when \<open>query_auth_data_from_token\<close> returns, the session of the returned data is
  a session of the store and active; the token of the returned data is the signed decode
  of the token string under that session's secret, and its signature is valid; the user
  is the record the store holds for that token's subject (with the online time set when
  the update is on); the session's owner id is that user's id; and the user is active or
  the caller passed \<open>allow_deactivated=true\<close>.
\<close>

theorem auth_data_invariant:
  assumes "query_auth_data_from_token cb pm token only_session_token required
             allow_deactivated allow_external_clients trigger request w = (Inr ad, w')"
  shows "\<exists>n user.
           user_sessions w n = Some (auth_session ad)
         \<and> session_is_active (auth_session ad)
         \<and> decode cb (if only_session_token then SessionToken else AccessToken) token
               (token_secret (auth_session ad)) = Inr (auth_token ad)
         \<and> signature_is_valid (auth_token ad)
         \<and> users w (get_subject (auth_token ad)) = Some user
         \<and> owner_id (auth_session ad) = uid user
         \<and> (user_is_active user \<or> allow_deactivated)
         \<and> auth_user ad = Some (if trigger then user\<lparr>time_online := Some (datetime_now cb)\<rparr>
                                 else user)"
proof -
  let ?tt = "if only_session_token then SessionToken else AccessToken"
  from assms obtain ad0 w0 where
    dec: "decode_token cb pm token ?tt required request allow_external_clients w = (Inr ad0, w0)"
    and fin: "query_auth_data cb ad0 allow_deactivated trigger w0 = (Inr ad, w')"
    unfolding query_auth_data_from_token_def Let_def
    by (auto split: prod.splits sum.splits if_splits)
  from decode_token_Inr [OF dec] obtain u :: Token and allow session w2 where
    sess: "query_session_from_sid cb (get_session_id u) request allow (emit DecodeUnsigned w)
             = (Inr session, w2)"
    and sig: "decode cb ?tt token (token_secret session) = Inr (auth_token ad0)"
      "signature_is_valid (auth_token ad0)"
    and ad0: "auth_session ad0 = session"
    and w0: "w0 = emit DecodeSigned w2"
    by blast
  from query_session_from_sid_Inr [OF sess] obtain n where
    n: "user_sessions (emit DecodeUnsigned w) n = Some session" "session_is_active session"
      "users w2 = users (emit DecodeUnsigned w)"
    by blast
  from query_auth_data_Inr [OF fin] obtain user where
    usr: "users w0 (get_subject (auth_token ad0)) = Some user"
      "owner_id (auth_session ad0) = uid user"
      "user_is_active user \<or> allow_deactivated"
      "auth_user ad = Some (if trigger then user\<lparr>time_online := Some (datetime_now cb)\<rparr> else user)"
      "auth_token ad = auth_token ad0" "auth_session ad = auth_session ad0"
    by blast
  have "users w0 = users w" using n(3) w0 by (simp add: emit_def)
  moreover have "user_sessions w n = Some session" using n(1) by (simp add: emit_def)
  ultimately show ?thesis using usr sig ad0 n(2) by auto
qed

text \<open>
  C10 on the concrete store: the token \<open>tok\<close> presented with a request and the
  default flags returns the data of session 1 and user 7, the online time set to the
  clock's 100.
\<close>

theorem auth_data_invariant_witness:
  "fst (query_auth_data_from_token demo_collaborators api_permissions ''tok'' False RequiredNone
          False False True (Some (demo_request ''tok'')) demo_world)
     = Inr (demo_auth_data\<lparr>auth_user := Some (demo_user\<lparr>time_online := Some 100\<rparr>)\<rparr>)
   \<and> (\<exists>n user.
           user_sessions demo_world n = Some demo_session
         \<and> session_is_active demo_session
         \<and> decode demo_collaborators AccessToken ''tok'' (token_secret demo_session)
             = Inr demo_token
         \<and> signature_is_valid demo_token
         \<and> users demo_world (get_subject demo_token) = Some user
         \<and> owner_id demo_session = uid user
         \<and> user_is_active user)"
proof -
  let ?run = "query_auth_data_from_token demo_collaborators api_permissions ''tok'' False
                RequiredNone False False True (Some (demo_request ''tok'')) demo_world"
  let ?ad = "demo_auth_data\<lparr>auth_user := Some (demo_user\<lparr>time_online := Some 100\<rparr>)\<rparr>"
  have run: "fst ?run = Inr ?ad"
    by (simp add: query_auth_data_from_token_def decode_token_def Let_def demo_collaborators_def
        query_scope_permissions_def api_permissions_def api_parse_permissions_from_scope_def
        api_recognized_permission_def SCOPE_PERMISSION_SEPARATOR_def
        ApiPermission_members_def ApiPermission_getattr_def external_clients_allowed_def
        query_session_from_sid_def
        demo_world_def demo_session_def demo_token_def demo_user_def demo_auth_data_def
        query_auth_data_def emit_def)
  then have h: "?run = (Inr ?ad, snd ?run)"
    by (simp add: prod_eq_iff)
  from auth_data_invariant [OF h] obtain n user where
    "user_sessions demo_world n = Some (auth_session ?ad)"
    "session_is_active (auth_session ?ad)"
    "decode demo_collaborators (if False then SessionToken else AccessToken) ''tok''
       (token_secret (auth_session ?ad)) = Inr (auth_token ?ad)"
    "signature_is_valid (auth_token ?ad)"
    "users demo_world (get_subject (auth_token ?ad)) = Some user"
    "owner_id (auth_session ?ad) = uid user"
    "user_is_active user \<or> False"
    by blast
  then have "user_sessions demo_world n = Some demo_session
         \<and> session_is_active demo_session
         \<and> decode demo_collaborators AccessToken ''tok'' (token_secret demo_session)
             = Inr demo_token
         \<and> signature_is_valid demo_token
         \<and> users demo_world (get_subject demo_token) = Some user
         \<and> owner_id demo_session = uid user
         \<and> user_is_active user"
    by (simp add: demo_auth_data_def)
  with run show ?thesis by blast
qed

end
